theory Spec2Isabelle
  imports Complex_Main
begin

section \<open>The FSRS memory model and the study loop of the flashcard application\<close>

text \<open>
  The class \<open>FSRS\<close> occurs twice in the repository, in \<open>FSRS.py\<close> and in \<open>main.py\<close>;
  the two copies compute the same functions (the copy in \<open>main.py\<close> writes the choice
  of \<open>w15\<close> as one conditional expression), so one embedding serves both.

  Python floats are embedded as HOL reals. Arithmetic is exact, with one exception: in
  the sums \<open>S + 1\<close> and \<open>R + 1\<close> a summand too small to change \<open>1.0\<close> is absorbed,
  because the source then divides by a logarithm that has become zero. Rounding of the
  last digit, overflow to infinity and underflow to zero are outside the model, and the
  theorems about a positive result are stated for stabilities above \<open>2 ** -53\<close>, far
  from underflow. Every exception the arithmetic of the source can raise is a value of
  the type \<open>error\<close>; a function of the source returns \<open>error + real\<close>, with \<open>Inl\<close>
  for the exception.
\<close>

subsection \<open>Exceptions and the arithmetic primitives of Python\<close>

datatype error = ZeroDivisionError | ValueError | KeyError | TypeError

definition bind_err :: "error + 'a \<Rightarrow> ('a \<Rightarrow> error + 'b) \<Rightarrow> error + 'b" where
  "bind_err m f = (case m of Inl e \<Rightarrow> Inl e | Inr v \<Rightarrow> f v)"

text \<open>\<open>a / b\<close> on floats raises \<open>ZeroDivisionError\<close> when \<open>b\<close> is zero.\<close>

definition py_div :: "real \<Rightarrow> real \<Rightarrow> error + real" where
  "py_div a b = (if b = 0 then Inl ZeroDivisionError else Inr (a / b))"

text \<open>\<open>math.log(x)\<close> raises \<open>ValueError\<close> (math domain error) unless \<open>x\<close> is positive.\<close>

definition math_log :: "real \<Rightarrow> error + real" where
  "math_log x = (if x \<le> 0 then Inl ValueError else Inr (ln x))"

text \<open>
  \<open>x + 1\<close> on floats, rounded to the nearest float with ties to even: the floats next
  to \<open>1.0\<close> are \<open>1 - 2 ** -53\<close> and \<open>1 + 2 ** -52\<close>, so a summand from \<open>-2 ** -54\<close> to
  \<open>2 ** -53\<close> is absorbed and the sum is \<open>1.0\<close>. Elsewhere the sum is taken exactly.
\<close>

definition float_add_one :: "real \<Rightarrow> real" where
  "float_add_one x = (if - (1 / 2 ^ 54) \<le> x \<and> x \<le> 1 / 2 ^ 53 then 1 else x + 1)"

text \<open>
  \<open>x ** n\<close> for a float \<open>x\<close> and an integer literal \<open>n\<close> (the source only writes
  \<open>** -1\<close>): zero to a negative power raises \<open>ZeroDivisionError\<close>.
\<close>

definition pow_int :: "real \<Rightarrow> int \<Rightarrow> error + real" where
  "pow_int x n = (if x = 0 \<and> n < 0 then Inl ZeroDivisionError else Inr (x powi n))"

text \<open>
  \<open>x ** y\<close> for floats \<open>x\<close> and \<open>y\<close>. Anything to the power zero is one; zero to a
  negative power raises \<open>ZeroDivisionError\<close>; a negative base with an exponent that is
  not a whole number gives a complex number, which is the value \<open>None\<close> here.
\<close>

definition pow_float :: "real \<Rightarrow> real \<Rightarrow> error + real option" where
  "pow_float x y =
     (if y = 0 then Inr (Some 1)
      else if x = 0 then (if y < 0 then Inl ZeroDivisionError else Inr (Some 0))
      else if 0 < x then Inr (Some (x powr y))
      else if y = of_int \<lfloor>y\<rfloor> then Inr (Some (x powi \<lfloor>y\<rfloor>))
      else Inr None)"

subsection \<open>The parameter set\<close>

text \<open>
  \<open>self.params\<close> is a dictionary from weight names to floats; \<open>self.params['w1']\<close>
  raises \<open>KeyError\<close> for a missing name. \<open>default_params\<close> is the dictionary that
  \<open>__init__\<close> installs when no parameters are passed, which is how \<open>main.py\<close> always
  builds its \<open>FSRS\<close> object.
\<close>

type_synonym params = "string \<rightharpoonup> real"

definition param :: "params \<Rightarrow> string \<Rightarrow> error + real" where
  "param ps k = (case ps k of None \<Rightarrow> Inl KeyError | Some v \<Rightarrow> Inr v)"

definition default_params :: params where
  "default_params = map_of
     [(''w1'', 1), (''w2'', 1), (''w3'', 1), (''w4'', 1),
      (''w5'', 1), (''w6'', 1), (''w7'', 1), (''w8'', 1),
      (''w11'', 1), (''w12'', 1), (''w15'', 1), (''w16'', 1)]"

subsection \<open>The memory model: class \<open>FSRS\<close>\<close>

text \<open>
  A grade is whatever string the caller passes; the study loop passes the capitalised
  line the user typed.
\<close>

type_synonym grade = string

text \<open>\<open>return (1 + (t / S) ** -1) ** -1\<close>\<close>

definition calculate_retrievability :: "real \<Rightarrow> real \<Rightarrow> error + real" where
  "calculate_retrievability t S =
     bind_err (py_div t S) (\<lambda>q.
     bind_err (pow_int q (- 1)) (\<lambda>p.
     pow_int (1 + p) (- 1)))"

text \<open>
  \<open>grade_map.get(grade, 3)\<close>: the index of the grade, \<open>3\<close> for an unknown one. The
  source binds it to \<open>G\<close> and never reads \<open>G\<close> again.
\<close>

definition grade_map :: "grade \<rightharpoonup> int" where
  "grade_map = map_of [(''Again'', 1), (''Hard'', 2), (''Good'', 3), (''Easy'', 4)]"

definition dict_get :: "('k \<rightharpoonup> 'v) \<Rightarrow> 'k \<Rightarrow> 'v \<Rightarrow> 'v" where
  "dict_get m k d = (case m k of None \<Rightarrow> d | Some v \<Rightarrow> v)"

text \<open>\<open>max(1, (math.log(x + 1) / math.log(2)) ** -1)\<close>, the shape of \<open>f_S\<close> and \<open>f_R\<close>.\<close>

definition saturation :: "real \<Rightarrow> error + real" where
  "saturation x =
     bind_err (math_log (float_add_one x)) (\<lambda>a.
     bind_err (math_log 2) (\<lambda>b.
     bind_err (py_div a b) (\<lambda>q.
     bind_err (pow_int q (- 1)) (\<lambda>p.
     Inr (max 1 p)))))"

definition grade_w15 :: "grade \<Rightarrow> real" where
  "grade_w15 g =
     (if g = ''Again'' then 0 else if g \<in> set [''Good'', ''Easy''] then 1 else 0.5)"

definition grade_w16 :: "grade \<Rightarrow> real" where
  "grade_w16 g = (if g \<in> set [''Hard'', ''Good''] then 1 else 3)"

definition stability_increase :: "params \<Rightarrow> real \<Rightarrow> real \<Rightarrow> real \<Rightarrow> grade \<Rightarrow> error + real" where
  "stability_increase ps S D R g =
     (let G = dict_get grade_map g 3;
          f_D = 11 - D
      in bind_err (saturation S) (\<lambda>f_S.
         bind_err (saturation R) (\<lambda>f_R.
         let w15 = grade_w15 g;
             w16 = grade_w16 g
         in bind_err (param ps ''w1'') (\<lambda>w1.
            let SInc = (f_D * f_S * f_R) * w1 * w15 * w16
            in Inr (max 1 SInc)))))"

text \<open>
  In the lapse branch a complex power makes \<open>min\<close> raise \<open>TypeError\<close>, after the
  lookup of \<open>w11\<close>.
\<close>

definition update_stability :: "params \<Rightarrow> real \<Rightarrow> real \<Rightarrow> real \<Rightarrow> grade \<Rightarrow> error + real" where
  "update_stability ps current_S D R g =
     (if g = ''Again'' then
        bind_err (param ps ''w12'') (\<lambda>w12.
        bind_err (pow_float D (- w12)) (\<lambda>f_D.
        bind_err (param ps ''w11'') (\<lambda>w11.
        case f_D of
          None \<Rightarrow> Inl TypeError
        | Some f \<Rightarrow> Inr (min current_S (current_S * f * w11)))))
      else
        bind_err (stability_increase ps current_S D R g) (\<lambda>inc.
        Inr (current_S * inc)))"

definition difficulty_change :: "grade \<rightharpoonup> real" where
  "difficulty_change =
     map_of [(''Again'', 1.0), (''Hard'', 0.2), (''Good'', 0.0), (''Easy'', - 0.2)]"

definition update_difficulty :: "params \<Rightarrow> real \<Rightarrow> grade \<Rightarrow> real \<Rightarrow> error + real" where
  "update_difficulty ps current_D g R =
     (let D_change = dict_get difficulty_change g 0.0;
          D_new = current_D + D_change
      in bind_err (param ps ''w4'') (\<lambda>w4.
         let D_new' = D_new * 0.9 + w4 * 0.1
         in Inr (max 1 (min 10 D_new'))))"

subsection \<open>The study loop: \<open>PhysicsFlashcardStudyApp.run_study_session\<close>\<close>

text \<open>
  A \<open>PhysicsQuestion\<close> object. Timestamps (\<open>datetime\<close> values) are real numbers of days
  on one time line, so that \<open>t + timedelta(days=d)\<close> is \<open>t + d\<close>; the microsecond grid
  and the year range of \<open>datetime\<close> are outside the model.
\<close>

record question =
  question_type :: string
  stability :: real
  difficulty :: real
  last_reviewed :: real
  next_review :: real

text \<open>
  \<open>min_stability_days = max(0.1, self.study_duration.total_seconds() / (24 * 3600))\<close>,
  for a study duration given in whole minutes.
\<close>

definition min_stability_days :: "int \<Rightarrow> real" where
  "min_stability_days minutes = max 0.1 (real_of_int minutes * 60 / (24 * 3600))"

text \<open>\<open>all(q.stability >= min_stability_days for q in self.questions)\<close>\<close>

definition all_mastered :: "real \<Rightarrow> question list \<Rightarrow> bool" where
  "all_mastered m qs = list_all (\<lambda>q. stability q \<ge> m) qs"

text \<open>
  \<open>min(xs, key=k)\<close> walks the sequence once and replaces the element it holds only by
  one with a strictly smaller key, so among several smallest elements the first wins;
  on an empty sequence it raises \<open>ValueError\<close>.
\<close>

fun min_key :: "('a \<Rightarrow> real) \<Rightarrow> 'a \<Rightarrow> 'a list \<Rightarrow> 'a" where
  "min_key k best [] = best"
| "min_key k best (x # xs) = min_key k (if k x < k best then x else best) xs"

definition py_min :: "('a \<Rightarrow> real) \<Rightarrow> 'a list \<Rightarrow> error + 'a" where
  "py_min k xs = (case xs of [] \<Rightarrow> Inl ValueError | x # r \<Rightarrow> Inr (min_key k x r))"

text \<open>
  The questions are objects that the loop mutates in place; the model names a question
  by its position in \<open>self.questions\<close>. Lines 208 to 210: the questions that are due,
  or all of them when none is.
\<close>

definition reviewable_questions :: "question list \<Rightarrow> real \<Rightarrow> nat list" where
  "reviewable_questions qs current_time =
     (let r = filter (\<lambda>i. next_review (qs ! i) \<le> current_time) [0..<length qs]
      in if r = [] then [0..<length qs] else r)"

text \<open>Line 212: \<open>min(reviewable_questions, key=lambda q: q.next_review)\<close>\<close>

definition question_to_review :: "question list \<Rightarrow> real \<Rightarrow> error + nat" where
  "question_to_review qs current_time =
     py_min (\<lambda>i. next_review (qs ! i)) (reviewable_questions qs current_time)"

text \<open>
  Lines 244 to 250, for the question under review: \<open>n\<close> is \<open>len(self.questions)\<close>,
  which the loop passes where the memory model expects the retrievability, \<open>g\<close> the
  grade read from the user and \<open>now\<close> the clock reading of line 250.
\<close>

definition review_question :: "params \<Rightarrow> nat \<Rightarrow> question \<Rightarrow> grade \<Rightarrow> real \<Rightarrow> error + question" where
  "review_question ps n q g now =
     bind_err (update_stability ps (stability q) (difficulty q) (real n) g) (\<lambda>S'.
     let q1 = q\<lparr>stability := S'\<rparr>
     in bind_err (update_difficulty ps (difficulty q1) g (real n)) (\<lambda>D'.
        let q2 = q1\<lparr>difficulty := D'\<rparr>
        in Inr (q2\<lparr>next_review := now + stability q2\<rparr>)))"

text \<open>One pass of the loop body from the selection to the update of the list.\<close>

definition study_step :: "params \<Rightarrow> question list \<Rightarrow> real \<Rightarrow> grade \<Rightarrow> real \<Rightarrow> error + question list" where
  "study_step ps qs current_time g now =
     bind_err (question_to_review qs current_time) (\<lambda>i.
     bind_err (review_question ps (length qs) (qs ! i) g now) (\<lambda>q'.
     Inr (qs[i := q'])))"

text \<open>
  The review step as the specification words it, for comparison with
  \<open>review_question\<close>: the elapsed days since \<open>last_reviewed\<close>, the retrievability of the
  memory model for them, both updates with that retrievability, \<open>last_reviewed\<close> set to
  \<open>now\<close> and \<open>next_review\<close> to \<open>now\<close> plus the new stability.
\<close>

definition record_review_spec :: "params \<Rightarrow> question \<Rightarrow> grade \<Rightarrow> real \<Rightarrow> error + question" where
  "record_review_spec ps q g now =
     (let elapsed = now - last_reviewed q
      in bind_err (calculate_retrievability elapsed (stability q)) (\<lambda>R.
         bind_err (update_stability ps (stability q) (difficulty q) R g) (\<lambda>S'.
         bind_err (update_difficulty ps (difficulty q) g R) (\<lambda>D'.
         Inr (q\<lparr>stability := S', difficulty := D',
                 last_reviewed := now, next_review := now + S'\<rparr>)))))"

subsection \<open>Example states\<close>

text \<open>
  A question as \<open>PhysicsQuestion.__init__\<close> leaves it, but with stability one day, and
  questions with the scheduling data a saved session can hold.
\<close>

definition card0 :: question where
  "card0 = \<lparr>question_type = ''kinematics'', stability = 1, difficulty = 5,
            last_reviewed = 0, next_review = 0\<rparr>"

definition card_a :: question where
  "card_a = \<lparr>question_type = ''kinematics'', stability = 1 / 10000, difficulty = 5,
             last_reviewed = 0, next_review = 0\<rparr>"

definition card_b :: question where
  "card_b = \<lparr>question_type = ''dynamics'', stability = 1 / 10000, difficulty = 5,
             last_reviewed = 0, next_review = 0\<rparr>"

definition card_m :: question where
  "card_m = \<lparr>question_type = ''kinematics'', stability = 1 / 2, difficulty = 5,
             last_reviewed = 0, next_review = 1 / 2\<rparr>"

definition card_n :: question where
  "card_n = \<lparr>question_type = ''dynamics'', stability = 9 / 100, difficulty = 5,
             last_reviewed = 0, next_review = 54 / 100\<rparr>"

section \<open>Auxiliary facts\<close>

text \<open>The saturation term in closed form, with its failures.\<close>

lemma saturation_eq:
  "saturation x =
     (if x \<le> - 1 then Inl ValueError
      else if - (1 / 2 ^ 54) \<le> x \<and> x \<le> 1 / 2 ^ 53 then Inl ZeroDivisionError
      else Inr (max 1 (ln 2 / ln (x + 1))))"
  by (simp add: saturation_def float_add_one_def bind_err_def math_log_def py_div_def
      pow_int_def inverse_eq_divide)

lemma saturation_returns:
  "- 1 < x \<Longrightarrow> x < - (1 / 2 ^ 54) \<or> 1 / 2 ^ 53 < x \<Longrightarrow>
   \<exists>f. saturation x = Inr f \<and> 1 \<le> f"
  by (auto simp add: saturation_eq)

lemma stability_increase_returns:
  assumes "ps ''w1'' = Some w1" "1 / 2 ^ 53 < S" "- 1 < R"
    "R < - (1 / 2 ^ 54) \<or> 1 / 2 ^ 53 < R"
  shows "\<exists>f. stability_increase ps S D R g = Inr f \<and> 1 \<le> f"
proof -
  have "- 1 < S" using assms(2) by (simp add: less_trans [of "- 1" 0 S] order_less_trans [of 0 "1 / 2 ^ 53" S])
  then obtain fs where fs: "saturation S = Inr fs"
    using saturation_returns [of S] assms(2) by auto
  obtain fr where fr: "saturation R = Inr fr"
    using saturation_returns [of R] assms(3,4) by auto
  show ?thesis
    using fs fr assms(1) by (simp add: stability_increase_def bind_err_def param_def Let_def)
qed

lemma stability_increase_ge1: "stability_increase ps S D R g = Inr f \<Longrightarrow> 1 \<le> f"
  by (auto simp add: stability_increase_def bind_err_def Let_def split: sum.splits)


lemma stability_increase_raises_ZeroDivisionError:
  assumes "1 / 2 ^ 53 < S" "- (1 / 2 ^ 54) \<le> R" "R \<le> 1 / 2 ^ 53"
  shows "stability_increase ps S D R g = Inl ZeroDivisionError"
proof -
  have "- 1 < S" using assms(1) by (simp add: order_less_trans [of 0 "1 / 2 ^ 53" S] less_trans [of "- 1" 0 S])
  then obtain fs where "saturation S = Inr fs"
    using saturation_returns [of S] assms(1) by auto
  moreover have "- 1 < R" using assms(2) by (simp add: less_le_trans [of "- 1" "- (1 / 2 ^ 54)" R])
  then have "saturation R = Inl ZeroDivisionError" using assms(2,3) by (simp add: saturation_eq)
  ultimately show ?thesis by (simp add: stability_increase_def bind_err_def Let_def)
qed


lemma update_stability_success_ge:
  assumes "g \<noteq> ''Again''" "0 < S" "update_stability ps S D R g = Inr S'"
  shows "S \<le> S'"
proof -
  obtain f where f: "stability_increase ps S D R g = Inr f" and S': "S' = S * f"
    using assms(1,3) by (auto simp add: update_stability_def bind_err_def split: sum.splits)
  have "1 \<le> f" using f by (rule stability_increase_ge1)
  then show ?thesis using S' assms(2) by simp
qed

lemma update_stability_success:
  "g \<noteq> ''Again'' \<Longrightarrow> stability_increase ps S D R g = Inr f \<Longrightarrow>
   update_stability ps S D R g = Inr (S * f)"
  by (simp add: update_stability_def bind_err_def)

lemma update_stability_lapse:
  assumes "ps ''w11'' = Some w11" "ps ''w12'' = Some w12" "0 < D"
  shows "update_stability ps S D R ''Again'' = Inr (min S (S * D powr (- w12) * w11))"
  using assms by (simp add: update_stability_def bind_err_def param_def pow_float_def)

lemma calculate_retrievability_eq:
  "calculate_retrievability t S =
     (if S = 0 \<or> t = 0 \<or> t + S = 0 then Inl ZeroDivisionError else Inr (t / (t + S)))"
  by (auto simp add: calculate_retrievability_def bind_err_def py_div_def pow_int_def
      field_simps add_eq_0_iff)

lemma update_difficulty_eq:
  "ps ''w4'' = Some w4 \<Longrightarrow>
   update_difficulty ps D g R =
     Inr (max 1 (min 10 ((D + dict_get difficulty_change g 0) * 0.9 + w4 * 0.1)))"
  by (simp add: update_difficulty_def bind_err_def param_def Let_def)

lemmas eval_defs =
  update_stability_def stability_increase_def saturation_eq bind_err_def param_def Let_def
  default_params_def grade_w15_def grade_w16_def update_difficulty_def dict_get_def
  difficulty_change_def pow_float_def

text \<open>
  The element \<open>min\<close> returns: it is in the sequence, no element has a smaller key, and,
  in an increasing sequence of positions, no earlier position has the same key.
\<close>

lemma min_key_in: "min_key k b xs \<in> set (b # xs)"
  by (induction xs arbitrary: b) (auto split: if_splits)

lemma min_key_le: "\<forall>x \<in> set (b # xs). k (min_key k b xs) \<le> k x"
proof (induction xs arbitrary: b)
  case Nil
  then show ?case by simp
next
  case (Cons y ys)
  let ?b = "if k y < k b then y else b"
  have ih: "\<forall>x \<in> set (?b # ys). k (min_key k ?b ys) \<le> k x" by (rule Cons.IH)
  then have "k (min_key k ?b ys) \<le> k ?b" by simp
  then have "k (min_key k ?b ys) \<le> k b" "k (min_key k ?b ys) \<le> k y"
    by (auto split: if_splits)
  with ih show ?case by simp
qed

lemma min_key_first:
  "sorted (b # xs) \<Longrightarrow>
   \<forall>j \<in> set (b # xs). k j \<le> k (min_key k b xs) \<longrightarrow> min_key k b xs \<le> (j::nat)"
proof (induction xs arbitrary: b)
  case Nil
  then show ?case by simp
next
  case (Cons y ys)
  let ?b = "if k y < k b then y else b"
  let ?m = "min_key k ?b ys"
  have srt: "sorted (?b # ys)" using Cons.prems by auto
  have ih: "\<forall>j \<in> set (?b # ys). k j \<le> k ?m \<longrightarrow> ?m \<le> j" by (rule Cons.IH [OF srt])
  have mle: "k ?m \<le> k ?b" using min_key_le [of ?b ys k] by simp
  have by': "b \<le> y" using Cons.prems by simp
  show ?case
  proof (cases "k y < k b")
    case True
    then have "\<not> k b \<le> k ?m" using mle by simp
    with ih True show ?thesis by simp
  next
    case False
    then have "k y \<le> k ?m \<longrightarrow> ?m \<le> b" using ih mle by auto
    with ih False by' show ?thesis by auto
  qed
qed

lemma set_reviewable:
  "set (reviewable_questions qs now) =
     (if \<exists>i<length qs. next_review (qs ! i) \<le> now
      then {i. i < length qs \<and> next_review (qs ! i) \<le> now}
      else {i. i < length qs})"
  by (auto simp add: reviewable_questions_def Let_def filter_empty_conv)

lemma sorted_reviewable: "sorted (reviewable_questions qs now)"
  by (simp add: reviewable_questions_def Let_def sorted_wrt_filter)

lemma reviewable_nonempty: "qs \<noteq> [] \<Longrightarrow> reviewable_questions qs now \<noteq> []"
  by (simp add: reviewable_questions_def Let_def)

section \<open>Stability on a successful review\<close>

text \<open>
  C1. For a stability \<open>S > 0\<close>, a difficulty in \<open>[1, 10]\<close> and a retrievability in
  \<open>(0, 1]\<close>, every factor that \<open>stability_increase\<close> returns is at least one, for every
  grade, and every stability that \<open>update_stability\<close> returns for a grade other than
  \<open>Again\<close> is at least \<open>S\<close>. Both functions do return, \<open>update_stability\<close> with \<open>S\<close>
  times the factor, when \<open>S\<close> and the retrievability are above \<open>2 ** -53\<close>; when one of
  them is not, the sum \<open>S + 1\<close> or \<open>R + 1\<close> is \<open>1.0\<close> and \<open>stability_increase\<close> raises
  \<open>ZeroDivisionError\<close>. The weight \<open>w1\<close> has to be in the parameter set.
\<close>

theorem stability_non_decrease:
  assumes "ps ''w1'' = Some w1" and "0 < S" and "1 \<le> D" and "D \<le> 10"
    and "0 < R" and "R \<le> 1"
  shows "(\<forall>f. stability_increase ps S D R g = Inr f \<longrightarrow> 1 \<le> f) \<and>
         (g \<noteq> ''Again'' \<longrightarrow> (\<forall>S'. update_stability ps S D R g = Inr S' \<longrightarrow> S \<le> S')) \<and>
         (1 / 2 ^ 53 < S \<and> 1 / 2 ^ 53 < R \<longrightarrow>
            (\<exists>f. stability_increase ps S D R g = Inr f \<and> 1 \<le> f \<and>
               (g \<noteq> ''Again'' \<longrightarrow>
                  update_stability ps S D R g = Inr (S * f) \<and> S \<le> S * f))) \<and>
         (S \<le> 1 / 2 ^ 53 \<or> R \<le> 1 / 2 ^ 53 \<longrightarrow>
            stability_increase ps S D R g = Inl ZeroDivisionError)"
proof (intro conjI allI impI)
  fix f assume "stability_increase ps S D R g = Inr f"
  then show "1 \<le> f" by (rule stability_increase_ge1)
next
  fix S' assume "g \<noteq> ''Again''" "update_stability ps S D R g = Inr S'"
  then show "S \<le> S'" using update_stability_success_ge [of g S ps D R S'] \<open>0 < S\<close> by simp
next
  assume big: "1 / 2 ^ 53 < S \<and> 1 / 2 ^ 53 < R"
  have "- 1 < R" using \<open>0 < R\<close> by simp
  then obtain f where f: "stability_increase ps S D R g = Inr f" "1 \<le> f"
    using stability_increase_returns [of ps w1 S R D g] assms(1) big by auto
  have "S \<le> S * f" using f(2) \<open>0 < S\<close> by simp
  with f update_stability_success [of g ps S D R f]
  show "\<exists>f. stability_increase ps S D R g = Inr f \<and> 1 \<le> f \<and>
          (g \<noteq> ''Again'' \<longrightarrow> update_stability ps S D R g = Inr (S * f) \<and> S \<le> S * f)"
    by auto
next
  assume small: "S \<le> 1 / 2 ^ 53 \<or> R \<le> 1 / 2 ^ 53"
  show "stability_increase ps S D R g = Inl ZeroDivisionError"
  proof (cases "S \<le> 1 / 2 ^ 53")
    case True
    then have "saturation S = Inl ZeroDivisionError"
      using \<open>0 < S\<close> by (simp add: saturation_eq)
    then show ?thesis by (simp add: stability_increase_def bind_err_def Let_def)
  next
    case False
    then have "R \<le> 1 / 2 ^ 53" using small by simp
    moreover have "- (1 / 2 ^ 54) \<le> R" using \<open>0 < R\<close> by simp
    ultimately show ?thesis
      using False stability_increase_raises_ZeroDivisionError [of S R ps D g] by simp
  qed
qed

text \<open>The default weights, \<open>S = 1\<close>, \<open>D = 5\<close>, \<open>R = 1\<close> and the grade \<open>Good\<close>.\<close>

theorem stability_non_decrease_witness:
  "default_params ''w1'' = Some 1 \<and>
   (\<exists>f. stability_increase default_params 1 5 1 ''Good'' = Inr f \<and> 1 \<le> f \<and>
      update_stability default_params 1 5 1 ''Good'' = Inr (1 * f) \<and> 1 \<le> 1 * f)"
proof -
  have h: "default_params ''w1'' = Some 1" by (simp add: default_params_def)
  show ?thesis
    using h stability_non_decrease [of default_params 1 1 5 1 "''Good''"] by simp
qed

section \<open>Stability on a lapse\<close>

text \<open>
  C2. For a stability \<open>S > 0\<close>, a difficulty in \<open>[1, 10]\<close> and any retrievability,
  \<open>update_stability\<close> with the grade \<open>Again\<close> returns the smaller of \<open>S\<close> and
  \<open>S * D ** -w12 * w11\<close>, which is at most \<open>S\<close>.
\<close>

theorem lapse_stability:
  assumes "ps ''w11'' = Some w11" and "ps ''w12'' = Some w12"
    and "0 < S" and "1 \<le> D" and "D \<le> 10"
  shows "update_stability ps S D R ''Again'' = Inr (min S (S * D powr (- w12) * w11)) \<and>
         min S (S * D powr (- w12) * w11) \<le> S"
  using assms update_stability_lapse [of ps w11 w12 D S R] by simp

text \<open>The default weights, \<open>S = 3\<close>, \<open>D = 2\<close> and \<open>R = 7\<close>.\<close>

theorem lapse_stability_witness:
  "default_params ''w11'' = Some 1 \<and> default_params ''w12'' = Some 1 \<and>
   update_stability default_params 3 2 7 ''Again'' = Inr (min 3 (3 * 2 powr (- 1) * 1)) \<and>
   min 3 (3 * 2 powr (- 1) * 1) \<le> (3::real)"
proof -
  have h1: "default_params ''w11'' = Some 1" by (simp add: default_params_def)
  have h2: "default_params ''w12'' = Some 1" by (simp add: default_params_def)
  show ?thesis
    using h1 h2 lapse_stability [of default_params 1 1 3 2 7] by simp
qed

section \<open>Retrievability\<close>

text \<open>
  C3. One day after a review of a question of stability three days,
  \<open>calculate_retrievability\<close> returns \<open>1/4\<close>, where \<open>(1 + t/S) ** -1\<close> is \<open>3/4\<close>; after
  two days it returns \<open>2/5\<close>, so the value has grown with the elapsed time.
\<close>

theorem retrievability_at_input:
  "calculate_retrievability 1 3 = Inr (1 / 4) \<and> calculate_retrievability 2 3 = Inr (2 / 5)"
  by (simp add: calculate_retrievability_eq)

section \<open>Recording a review\<close>

text \<open>
  C4. The only question of a session, last reviewed at day \<open>0\<close> with stability one day,
  is graded \<open>Good\<close> at day \<open>2\<close>. The loop passes the number of questions, \<open>1\<close>, as
  retrievability, so the new stability is \<open>6\<close>, and it leaves \<open>last_reviewed\<close> at \<open>0\<close>;
  the review step of the specification gives another state.
\<close>

theorem study_step_at_input:
  "study_step default_params [card0] 1 ''Good'' 2 =
     Inr [card0\<lparr>stability := 6, difficulty := 23 / 5, next_review := 8\<rparr>] \<and>
   record_review_spec default_params card0 ''Good'' 2 \<noteq>
     Inr (card0\<lparr>stability := 6, difficulty := 23 / 5, next_review := 8\<rparr>)"
  by (simp add: study_step_def question_to_review_def py_min_def reviewable_questions_def
      review_question_def record_review_spec_def calculate_retrievability_eq card0_def eval_defs)

section \<open>Difficulty\<close>

text \<open>
  C5. For each of the four grades \<open>update_difficulty\<close> adds the change of the grade
  (\<open>+1.0\<close>, \<open>+0.2\<close>, \<open>0\<close>, \<open>-0.2\<close>), then takes nine tenths of the sum plus one tenth of
  \<open>w4\<close>, then clamps to \<open>[1, 10]\<close>; with the default \<open>w4 = 1.0\<close>, difficulty \<open>5.0\<close> and
  the grade \<open>Hard\<close> give \<open>4.78\<close>.
\<close>

theorem update_difficulty_formula:
  assumes "ps ''w4'' = Some w4"
    and "g \<in> set [''Again'', ''Hard'', ''Good'', ''Easy'']"
  shows "update_difficulty ps D g R =
           Inr (max 1 (min 10 (0.9 * (D + (if g = ''Again'' then 1.0
                                         else if g = ''Hard'' then 0.2
                                         else if g = ''Good'' then 0
                                         else - 0.2)) + 0.1 * w4))) \<and>
         update_difficulty default_params 5.0 ''Hard'' R = Inr 4.78"
proof -
  have "update_difficulty default_params 5.0 ''Hard'' R = Inr 4.78"
    by (simp add: eval_defs)
  moreover have "dict_get difficulty_change g 0 =
      (if g = ''Again'' then 1.0 else if g = ''Hard'' then 0.2
       else if g = ''Good'' then 0 else - 0.2)"
    using assms(2) by (auto simp add: dict_get_def difficulty_change_def)
  ultimately show ?thesis
    using assms(1) update_difficulty_eq [of ps w4 D g R] by (simp add: mult.commute)
qed

text \<open>The default weights, difficulty \<open>7\<close> and the grade \<open>Easy\<close>.\<close>

theorem update_difficulty_formula_witness:
  "default_params ''w4'' = Some 1 \<and>
   ''Easy'' \<in> set [''Again'', ''Hard'', ''Good'', ''Easy''] \<and>
   update_difficulty default_params 7 ''Easy'' 0 = Inr 6.22"
proof -
  have h1: "default_params ''w4'' = Some 1" by (simp add: default_params_def)
  have h2: "''Easy'' \<in> set [''Again'', ''Hard'', ''Good'', ''Easy'']" by simp
  show ?thesis
    using h1 h2 update_difficulty_formula [of default_params 1 "''Easy''" 7 0] by simp
qed

text \<open>
  C10. The retrievability argument of \<open>update_difficulty\<close> has no influence on the
  result.
\<close>

theorem update_difficulty_ignores_retrievability:
  "update_difficulty ps D g R1 = update_difficulty ps D g R2"
  by (simp add: update_difficulty_def)

section \<open>Positive stability\<close>




section \<open>Selecting the next question\<close>

text \<open>
  C7, as stated, fails. In a session of 700 minutes, at day \<open>0.46\<close>, no question of
  \<open>[card_m, card_n]\<close> is due; the loop selects \<open>card_m\<close>, whose stability has reached
  the mastery threshold, although \<open>card_n\<close> has not reached it. And of two questions with
  the same \<open>next_review\<close> the loop selects the one that comes first in the list, whichever
  identifier it has: \<open>kinematics\<close> in \<open>[card_a, card_b]\<close>, \<open>dynamics\<close> in
  \<open>[card_b, card_a]\<close>.
\<close>

theorem select_next_counterexample:
  "question_to_review [card_m, card_n] (46 / 100) = Inr 0 \<and>
   \<not> next_review card_m \<le> 46 / 100 \<and> \<not> next_review card_n \<le> 46 / 100 \<and>
   min_stability_days 700 \<le> stability card_m \<and>
   stability card_n < min_stability_days 700 \<and>
   question_to_review [card_a, card_b] 0 = Inr 0 \<and>
   question_to_review [card_b, card_a] 0 = Inr 0 \<and>
   next_review card_a = next_review card_b \<and>
   question_type card_a \<noteq> question_type card_b"
  by (simp add: question_to_review_def py_min_def reviewable_questions_def
      min_stability_days_def card_m_def card_n_def card_a_def card_b_def)

text \<open>
  C7, amended. On a list of questions that is not empty the selection returns a
  position of the list. The candidates are the questions with \<open>next_review\<close> at or
  before the current time, or all questions, mastered or not, when there is none; the
  selected question has the earliest \<open>next_review\<close> of the candidates, and of the
  candidates with that \<open>next_review\<close> it is the first in the list. The result depends on
  the list and the current time only, so that a second call with the same time and no
  review in between selects the same question.
\<close>

theorem question_to_review_earliest_first:
  assumes "qs \<noteq> []"
  shows "\<exists>i. question_to_review qs now = Inr i \<and>
           i \<in> (if \<exists>j<length qs. next_review (qs ! j) \<le> now
                 then {j. j < length qs \<and> next_review (qs ! j) \<le> now}
                 else {j. j < length qs}) \<and>
           (\<forall>j \<in> (if \<exists>j<length qs. next_review (qs ! j) \<le> now
                   then {j. j < length qs \<and> next_review (qs ! j) \<le> now}
                   else {j. j < length qs}).
              next_review (qs ! i) \<le> next_review (qs ! j) \<and>
              (next_review (qs ! j) = next_review (qs ! i) \<longrightarrow> i \<le> j))"
proof -
  obtain b xs where r: "reviewable_questions qs now = b # xs"
    using reviewable_nonempty [OF assms, of now] by (cases "reviewable_questions qs now") auto
  let ?k = "\<lambda>i. next_review (qs ! i)"
  let ?m = "min_key ?k b xs"
  have srt: "sorted (b # xs)" using sorted_reviewable [of qs now] r by simp
  have "question_to_review qs now = Inr ?m"
    by (simp add: question_to_review_def py_min_def r)
  moreover have "?m \<in> set (b # xs)" by (rule min_key_in)
  moreover have "\<forall>j \<in> set (b # xs). ?k ?m \<le> ?k j \<and> (?k j = ?k ?m \<longrightarrow> ?m \<le> j)"
    using min_key_le [of b xs ?k] min_key_first [OF srt, of ?k] by auto
  ultimately show ?thesis unfolding r [symmetric] set_reviewable by blast
qed

text \<open>
  The questions \<open>[card_m, card_n]\<close> at day \<open>0.46\<close>: none is due, and \<open>card_m\<close> has the
  earlier \<open>next_review\<close>.
\<close>

theorem question_to_review_earliest_first_witness:
  "[card_m, card_n] \<noteq> [] \<and> question_to_review [card_m, card_n] (46 / 100) = Inr 0"
proof -
  let ?qs = "[card_m, card_n]"
  let ?C = "if \<exists>j<length ?qs. next_review (?qs ! j) \<le> 46 / 100
            then {j. j < length ?qs \<and> next_review (?qs ! j) \<le> 46 / 100}
            else {j. j < length ?qs}"
  have h: "?qs \<noteq> []" by simp
  have C: "?C = {0, 1}"
    by (auto simp add: card_m_def card_n_def less_Suc_eq)
  obtain i where i: "question_to_review ?qs (46 / 100) = Inr i"
    and mem: "i \<in> ?C"
    and least: "\<forall>j \<in> ?C. next_review (?qs ! i) \<le> next_review (?qs ! j) \<and>
                  (next_review (?qs ! j) = next_review (?qs ! i) \<longrightarrow> i \<le> j)"
    using question_to_review_earliest_first [OF h, of "46 / 100"] by blast
  have "next_review (?qs ! i) \<le> next_review (?qs ! 0)" using least C by simp
  moreover have "i = 0 \<or> i = 1" using mem C by simp
  ultimately have "i = 0" by (auto simp add: card_m_def card_n_def)
  with i h show ?thesis by simp
qed

section \<open>Grades outside the enumeration\<close>

text \<open>
  C8, as stated, fails. The grade \<open>Foo\<close> raises nothing: with the default weights
  \<open>update_difficulty\<close> returns \<open>4.6\<close> for difficulty \<open>5\<close>, and \<open>stability_increase\<close>
  and \<open>update_stability\<close> return \<open>9\<close> for \<open>S = 1\<close>, \<open>D = 5\<close>, \<open>R = 1\<close>.
\<close>

theorem invalid_grade_counterexample:
  "update_difficulty default_params 5 ''Foo'' 1 = Inr (23 / 5) \<and>
   stability_increase default_params 1 5 1 ''Foo'' = Inr 9 \<and>
   update_stability default_params 1 5 1 ''Foo'' = Inr 9"
  by (simp add: eval_defs)

text \<open>
  C8, amended. A grade outside the four names is accepted: \<open>update_difficulty\<close> changes
  the difficulty by \<open>0\<close>, as it does for \<open>Good\<close>, and, for a stability and a
  retrievability above \<open>2 ** -53\<close>, \<open>stability_increase\<close> returns a factor of at least
  one and \<open>update_stability\<close> takes the branch of a successful review.
\<close>

theorem unknown_grade_accepted:
  assumes "g \<notin> set [''Again'', ''Hard'', ''Good'', ''Easy'']"
    and "ps ''w1'' = Some w1" and "ps ''w4'' = Some w4"
    and "1 / 2 ^ 53 < S" and "1 / 2 ^ 53 < R"
  shows "update_difficulty ps D g R = Inr (max 1 (min 10 ((D + 0) * 0.9 + w4 * 0.1))) \<and>
         update_difficulty ps D g R = update_difficulty ps D ''Good'' R \<and>
         (\<exists>f. stability_increase ps S D R g = Inr f \<and> 1 \<le> f \<and>
               update_stability ps S D R g = Inr (S * f))"
proof -
  have "dict_get difficulty_change g 0 = 0"
    using assms(1) by (simp add: dict_get_def difficulty_change_def)
  moreover have "dict_get difficulty_change ''Good'' 0 = 0"
    by (simp add: dict_get_def difficulty_change_def)
  ultimately have d: "update_difficulty ps D g R = Inr (max 1 (min 10 ((D + 0) * 0.9 + w4 * 0.1)))"
    "update_difficulty ps D g R = update_difficulty ps D ''Good'' R"
    using assms(3) update_difficulty_eq [of ps w4 D g R]
      update_difficulty_eq [of ps w4 D "''Good''" R] by simp_all
  have "- 1 < R" using assms(5) by (simp add: less_trans [of "- 1" 0 R] order_less_trans [of 0 "1 / 2 ^ 53" R])
  then obtain f where f: "stability_increase ps S D R g = Inr f" "1 \<le> f"
    using stability_increase_returns [of ps w1 S R D g] assms by auto
  moreover have "g \<noteq> ''Again''" using assms(1) by auto
  ultimately have "update_stability ps S D R g = Inr (S * f)"
    using update_stability_success [of g ps S D R f] by simp
  with d f show ?thesis by blast
qed

text \<open>The grade \<open>Foo\<close> with the default weights.\<close>

theorem unknown_grade_accepted_witness:
  "''Foo'' \<notin> set [''Again'', ''Hard'', ''Good'', ''Easy''] \<and>
   default_params ''w1'' = Some 1 \<and> default_params ''w4'' = Some 1 \<and>
   update_difficulty default_params 5 ''Foo'' 1 = Inr (23 / 5) \<and>
   (\<exists>f. stability_increase default_params 1 5 1 ''Foo'' = Inr f \<and> 1 \<le> f \<and>
         update_stability default_params 1 5 1 ''Foo'' = Inr (1 * f))"
proof -
  have h: "''Foo'' \<notin> set [''Again'', ''Hard'', ''Good'', ''Easy'']"
    "default_params ''w1'' = Some 1" "default_params ''w4'' = Some 1"
    by (simp_all add: default_params_def)
  show ?thesis
    using h unknown_grade_accepted [of "''Foo''" default_params 1 1 1 1 5] by simp
qed

section \<open>Arguments outside their domain\<close>

text \<open>
  C9, as stated, fails. With the stability \<open>-3\<close>, \<open>calculate_retrievability\<close> returns
  \<open>-1/2\<close>; with the difficulty \<open>11\<close>, \<open>update_difficulty\<close> returns \<open>10\<close>; with the
  stability \<open>-1\<close>, a lapse returns the stability \<open>-1\<close>.
\<close>

theorem domain_error_counterexample:
  "calculate_retrievability 1 (- 3) = Inr (- 1 / 2) \<and>
   update_difficulty default_params 11 ''Good'' 1 = Inr 10 \<and>
   update_stability default_params (- 1) 5 1 ''Again'' = Inr (- 1)"
  by (simp add: calculate_retrievability_eq eval_defs powr_minus)

text \<open>
  C9, amended. No function of the memory model checks its stability or difficulty
  argument. \<open>calculate_retrievability\<close> returns a number for a negative stability
  whenever the elapsed time is neither zero nor the opposite of the stability, and raises
  \<open>ZeroDivisionError\<close> for the stability zero; \<open>update_difficulty\<close> returns a value in
  \<open>[1, 10]\<close> for every difficulty; \<open>update_stability\<close> on a lapse returns the smaller of
  \<open>S\<close> and \<open>S * D ** -w12 * w11\<close> for every stability and every positive difficulty.
\<close>

theorem no_domain_check:
  "(S < 0 \<and> t \<noteq> 0 \<and> t + S \<noteq> 0 \<longrightarrow> (\<exists>r. calculate_retrievability t S = Inr r)) \<and>
   calculate_retrievability t 0 = Inl ZeroDivisionError \<and>
   (ps ''w4'' = Some w4 \<longrightarrow> (\<exists>d. update_difficulty ps D g R = Inr d \<and> 1 \<le> d \<and> d \<le> 10)) \<and>
   (ps ''w11'' = Some w11 \<and> ps ''w12'' = Some w12 \<and> 0 < D \<longrightarrow>
      update_stability ps S D R ''Again'' = Inr (min S (S * D powr (- w12) * w11)))"
  using update_difficulty_eq [of ps w4 D g R] update_stability_lapse [of ps w11 w12 D S R]
  by (auto simp add: calculate_retrievability_eq)

text \<open>The stability \<open>-3\<close> and the difficulty \<open>11\<close> with the default weights.\<close>

theorem no_domain_check_witness:
  "(\<exists>r. calculate_retrievability 1 (- 3) = Inr r) \<and>
   (\<exists>d. update_difficulty default_params 11 ''Good'' 1 = Inr d \<and> 1 \<le> d \<and> d \<le> 10) \<and>
   update_stability default_params (- 3) 11 1 ''Again'' =
     Inr (min (- 3) (- 3 * 11 powr (- 1) * 1))"
proof -
  have h: "default_params ''w4'' = Some 1" "default_params ''w11'' = Some 1"
    "default_params ''w12'' = Some 1"
    by (simp_all add: default_params_def)
  show ?thesis
    using h no_domain_check [of "- 3" 1 default_params 1 11 "''Good''" 1 1 1] by simp
qed

end
